theory Spec2Isabelle
  imports Complex_Main
begin

section \<open>JavaScript values used by the planner\<close>

text \<open>
  The planner is the TypeScript of the React page: \<open>getAvailableIPs\<close>,
  \<open>getPerAppDedicatedNodes\<close>, \<open>validateAppInput\<close>, \<open>validateAllApps\<close>, \<open>calculate\<close>
  and \<open>handleSubmit\<close>, in the version that assigns a fixed node type to each app. Its
  numbers are JavaScript doubles. The model takes the integer-valued ones: every numeric
  field is an \<open>int\<close>. On integers of the size of a replica count or a resource
  requirement (below \<open>2^44\<close>) the doubles' \<open>+\<close>, comparison, \<open>Math.floor(a / b)\<close> for a
  catalog capacity \<open>a\<close> and \<open>Math.ceil(a / b)\<close> for a per-node capacity \<open>b\<close> are exact.
  Fractional requirements are left out because the quotient of doubles is not the exact
  quotient there: \<open>220 / 1.1\<close> is \<open>199.99999999999997\<close>, whose floor is 199, not 200.
  \<open>Infinity\<close> and \<open>NaN\<close> are modelled where the code can produce them from integer
  inputs. Strings are lists of 8-bit code units.
\<close>

subsection \<open>Decimal and binary digits\<close>

definition isDigit :: "char \<Rightarrow> bool" where
  \<comment> \<open>the regular expression class \<open>\d\<close>\<close>
  "isDigit c = (48 \<le> (of_char c :: nat) \<and> (of_char c :: nat) \<le> 57)"

definition digitValue :: "char \<Rightarrow> nat" where
  "digitValue c = of_char c - 48"

definition digitChar :: "nat \<Rightarrow> char" where
  "digitChar d = char_of (48 + d)"

definition decimalValue :: "string \<Rightarrow> nat" where
  \<comment> \<open>the mathematical value of a string of decimal digits\<close>
  "decimalValue z = foldl (\<lambda>acc c. 10 * acc + digitValue c) 0 z"

fun showNat :: "nat \<Rightarrow> string" where
  \<comment> \<open>\<open>String(n)\<close> of a non-negative integer, as a template literal prints it\<close>
  "showNat n = (if n < 10 then [digitChar n] else showNat (n div 10) @ [digitChar (n mod 10)])"

declare showNat.simps [simp del]

definition showInt :: "int \<Rightarrow> string" where
  "showInt i = (if i < 0 then CHR ''-'' # showNat (nat (- i)) else showNat (nat i))"

fun toBinary :: "nat \<Rightarrow> string" where
  \<comment> \<open>\<open>n.toString(2)\<close> of a non-negative integer\<close>
  "toBinary n = (if n < 2 then [digitChar n] else toBinary (n div 2) @ [digitChar (n mod 2)])"

declare toBinary.simps [simp del]

fun bitLength :: "nat \<Rightarrow> nat" where
  "bitLength n = (if n = 0 then 0 else Suc (bitLength (n div 2)))"

declare bitLength.simps [simp del]

subsection \<open>Strings\<close>

definition startsWith :: "string \<Rightarrow> string \<Rightarrow> bool" where
  "startsWith s p = (take (length p) s = p)"

fun split_str :: "char \<Rightarrow> string \<Rightarrow> string list" where
  \<comment> \<open>\<open>s.split(sep)\<close> for a separator of one character; \<open>"".split(sep)\<close> is \<open>[""]\<close>\<close>
  "split_str sep [] = [[]]"
| "split_str sep (c # cs) =
     (if c = sep then [] # split_str sep cs
      else (case split_str sep cs of
              [] \<Rightarrow> [[c]]
            | p # ps \<Rightarrow> (c # p) # ps))"

definition padStart :: "nat \<Rightarrow> char \<Rightarrow> string \<Rightarrow> string" where
  \<comment> \<open>\<open>s.padStart(n, c)\<close>\<close>
  "padStart n c s = replicate (n - length s) c @ s"

fun join :: "string \<Rightarrow> string list \<Rightarrow> string" where
  \<comment> \<open>\<open>xs.join(sep)\<close>\<close>
  "join sep [] = []"
| "join sep [x] = x"
| "join sep (x # y # ys) = x @ sep @ join sep (y # ys)"

definition orElse :: "string \<Rightarrow> string \<Rightarrow> string" where
  \<comment> \<open>\<open>s || d\<close> on strings: the empty string is falsy\<close>
  "orElse s d = (if s = [] then d else s)"

subsection \<open>parseInt and Number\<close>

datatype jsnum = NaN | Num int

definition isWhiteSpace :: "char \<Rightarrow> bool" where
  \<comment> \<open>the white space and line terminators that \<open>parseInt\<close> skips, among 8-bit code units:
      TAB, LF, VT, FF, CR, SP, NBSP\<close>
  "isWhiteSpace c = ((of_char c :: nat) \<in> {9, 10, 11, 12, 13, 32, 160})"

definition parseInt :: "string \<Rightarrow> jsnum" where
  \<comment> \<open>\<open>parseInt(s, 10)\<close>: leading white space, an optional sign, then the longest run of
      digits; \<open>NaN\<close> when there is none. The value is kept exact: the caller only compares
      it with 0, 27 and 32, and rounding to a double does not move a value across them.\<close>
  "parseInt s =
     (let s1 = dropWhile isWhiteSpace s;
          neg = startsWith s1 ''-'';
          s2 = (if startsWith s1 ''-'' \<or> startsWith s1 ''+'' then drop 1 s1 else s1);
          z = takeWhile isDigit s2
      in if z = [] then NaN
         else Num ((if neg then - 1 else 1) * int (decimalValue z)))"

definition roundDouble :: "nat \<Rightarrow> nat option" where
  \<comment> \<open>the double nearest to a non-negative integer (ties to even), \<open>None\<close> for \<open>Infinity\<close>:
      53 significant bits are kept\<close>
  "roundDouble n =
     (if bitLength n \<le> 53 then Some n
      else
        (let e = bitLength n - 53;
             q = n div 2 ^ e;
             r = n mod 2 ^ e;
             half = 2 ^ (e - 1);
             q' = (if half < r \<or> (r = half \<and> odd q) then q + 1 else q)
         in if 2 ^ 1024 \<le> q' * 2 ^ e then None else Some (q' * 2 ^ e)))"

definition Number :: "string \<Rightarrow> nat option" where
  \<comment> \<open>\<open>Number(s)\<close> of a non-empty string of decimal digits (the only strings the
      caller converts): its decimal value, leading zeros allowed, rounded to a double\<close>
  "Number s = roundDouble (decimalValue s)"

definition toString2 :: "nat option \<Rightarrow> string" where
  \<comment> \<open>\<open>n.toString(2)\<close>\<close>
  "toString2 n = (case n of None \<Rightarrow> ''Infinity'' | Some k \<Rightarrow> toBinary k)"

section \<open>Available IPs of a subnet\<close>

definition allDigits :: "string \<Rightarrow> bool" where
  \<comment> \<open>\<open>/^\d+$/.test(s)\<close>\<close>
  "allDigits s = (s \<noteq> [] \<and> list_all isDigit s)"

definition dottedQuad :: "string \<Rightarrow> bool" where
  \<comment> \<open>\<open>/^\d+\.\d+\.\d+\.\d+$/.test(s)\<close>: four non-empty runs of digits between three dots\<close>
  "dottedQuad s = (length (split_str CHR ''.'' s) = 4 \<and> list_all allDigits (split_str CHR ''.'' s))"

definition subnetBits :: "string \<Rightarrow> jsnum option" where
  \<comment> \<open>the variable \<open>bits\<close> of \<open>getAvailableIPs\<close> after its three branches; \<open>None\<close> is \<open>null\<close>\<close>
  "subnetBits subnet =
     (if startsWith subnet ''/'' then Some (parseInt (drop 1 subnet))
      else if allDigits subnet then Some (parseInt subnet)
      else if dottedQuad subnet then
        (let parts = map Number (split_str CHR ''.'' subnet);
             bin = join [] (map (\<lambda>n. padStart 8 CHR ''0'' (toString2 n)) parts)
         in Some (Num (int (length (split_str CHR ''1'' bin)) - 1)))
      else None)"

definition getAvailableIPs :: "string \<Rightarrow> int option" where
  "getAvailableIPs subnet =
     (case subnetBits subnet of
        Some (Num bits) \<Rightarrow>
          \<comment> \<open>\<open>bits && bits >= 0 && bits <= 32\<close>: \<open>null\<close>, \<open>NaN\<close> and \<open>0\<close> are falsy\<close>
          if bits \<noteq> 0 \<and> 0 \<le> bits \<and> bits \<le> 32
          then (let total = 2 ^ nat (32 - bits) in Some (total - 14))
          else None
      | _ \<Rightarrow> None)"

text \<open>
  The three ways of writing a prefix length \<open>N\<close> that the page accepts: \<open>/N\<close>, the bare
  \<open>N\<close>, and the dotted-decimal netmask with the top \<open>N\<close> of its 32 bits set.
\<close>

definition slashForm :: "nat \<Rightarrow> string" where
  "slashForm N = ''/'' @ showNat N"

definition bareForm :: "nat \<Rightarrow> string" where
  "bareForm N = showNat N"

definition maskOctet :: "nat \<Rightarrow> nat \<Rightarrow> nat" where
  \<comment> \<open>octet \<open>k\<close> (0 to 3, from the left) of the netmask of prefix length \<open>N\<close>\<close>
  "maskOctet N k = 256 - 2 ^ (8 - min 8 (N - 8 * k))"

definition maskForm :: "nat \<Rightarrow> string" where
  "maskForm N = join ''.'' (map (\<lambda>k. showNat (maskOctet N k)) [0, 1, 2, 3])"

section \<open>Apps, node types and the catalog\<close>

datatype PlanType = Consumption | Dedicated

datatype PlanChoice = Plan PlanType | Mix

text \<open>
  \<open>AppInput\<close>: the optional fields \<open>plan\<close> and \<open>baselineTouched\<close> are \<open>None\<close> when
  \<open>undefined\<close>.
\<close>

record AppInput =
  name :: string
  cpu :: int
  gpu :: int
  ram :: int
  minReplicas :: int
  baselineReplicas :: int
  replicas :: int
  plan :: "PlanType option"
  baselineTouched :: "bool option"

text \<open>An entry of \<open>DEDICATED_NODE_TYPES\<close>; its fields \<open>name\<close>, \<open>cpu\<close>, \<open>ram\<close>, \<open>gpu\<close>
  carry the prefix \<open>node_\<close> here.\<close>

record NodeType =
  node_name :: string
  node_cpu :: int
  node_ram :: int
  node_gpu :: int

definition DEDICATED_NODE_TYPES :: "NodeType list" where
  "DEDICATED_NODE_TYPES =
    [\<lparr>node_name = ''D4'', node_cpu = 4, node_ram = 16, node_gpu = 0\<rparr>,
     \<lparr>node_name = ''D8'', node_cpu = 8, node_ram = 32, node_gpu = 0\<rparr>,
     \<lparr>node_name = ''D16'', node_cpu = 16, node_ram = 64, node_gpu = 0\<rparr>,
     \<lparr>node_name = ''D32'', node_cpu = 32, node_ram = 128, node_gpu = 0\<rparr>,
     \<lparr>node_name = ''E4'', node_cpu = 4, node_ram = 32, node_gpu = 0\<rparr>,
     \<lparr>node_name = ''E8'', node_cpu = 8, node_ram = 64, node_gpu = 0\<rparr>,
     \<lparr>node_name = ''E16'', node_cpu = 16, node_ram = 128, node_gpu = 0\<rparr>,
     \<lparr>node_name = ''E32'', node_cpu = 32, node_ram = 256, node_gpu = 0\<rparr>,
     \<lparr>node_name = ''NC24-A100'', node_cpu = 24, node_ram = 220, node_gpu = 1\<rparr>,
     \<lparr>node_name = ''NC48-A100'', node_cpu = 48, node_ram = 440, node_gpu = 2\<rparr>,
     \<lparr>node_name = ''NC96-A100'', node_cpu = 96, node_ram = 880, node_gpu = 4\<rparr>]"

subsection \<open>Numbers that may be Infinity\<close>

datatype capacity = Finite int | Infinity

definition floorQuot :: "int \<Rightarrow> int \<Rightarrow> capacity" where
  \<comment> \<open>\<open>Math.floor(a / b)\<close>, called with a catalog capacity \<open>a\<close>: the cpu and ram of every
      entry are positive, so \<open>a / 0\<close> is \<open>Infinity\<close>; the gpu quotient is only taken for
      \<open>b > 0\<close>\<close>
  "floorQuot a b = (if b = 0 then Infinity else Finite \<lfloor>rat_of_int a / rat_of_int b\<rfloor>)"

fun minCapacity :: "capacity \<Rightarrow> capacity \<Rightarrow> capacity" where
  \<comment> \<open>\<open>Math.min\<close> of two\<close>
  "minCapacity Infinity y = y"
| "minCapacity x Infinity = x"
| "minCapacity (Finite a) (Finite b) = Finite (min a b)"

fun positive :: "capacity \<Rightarrow> bool" where
  \<comment> \<open>\<open>p > 0\<close>\<close>
  "positive Infinity = True"
| "positive (Finite p) = (0 < p)"

fun ceilQuot :: "int \<Rightarrow> capacity \<Rightarrow> int" where
  \<comment> \<open>\<open>Math.ceil(r / p)\<close>, called with \<open>p > 0\<close>: \<open>r / Infinity\<close> is zero\<close>
  "ceilQuot r Infinity = 0"
| "ceilQuot r (Finite p) = \<lceil>rat_of_int r / rat_of_int p\<rceil>"

fun showCapacity :: "capacity \<Rightarrow> string" where
  "showCapacity Infinity = ''Infinity''"
| "showCapacity (Finite p) = showInt p"

section \<open>Per-app dedicated nodes\<close>

text \<open>\<open>PerAppResult\<close>, its fields prefixed \<open>pa_\<close>.\<close>

record PerAppResult =
  pa_appName :: string
  pa_nodeType :: "NodeType option"
  pa_nodeTypeName :: string
  pa_replicas :: int
  pa_nodesNeeded :: int
  pa_perNodeCapacity :: capacity
  pa_plan :: string
  pa_minReplicas :: int

text \<open>What \<open>getPerAppDedicatedNodes\<close> returns: \<open>{ perApp, totalNodes, warning }\<close>, which
  are also the three variables its loop updates.\<close>

record DedicatedNodes =
  perApp :: "PerAppResult list"
  totalNodes :: int
  warning :: "string option"

definition fits :: "AppInput \<Rightarrow> NodeType \<Rightarrow> bool" where
  \<comment> \<open>\<open>n.cpu >= app.cpu && n.ram >= app.ram && n.gpu >= app.gpu\<close>\<close>
  "fits app n = (cpu app \<le> node_cpu n \<and> ram app \<le> node_ram n \<and> gpu app \<le> node_gpu n)"

definition findNodeType :: "AppInput \<Rightarrow> NodeType option" where
  \<comment> \<open>\<open>DEDICATED_NODE_TYPES.find(n => ...)\<close>: the first entry that fits a single replica\<close>
  "findNodeType app = List.find (fits app) DEDICATED_NODE_TYPES"

definition perAppStep :: "bool \<Rightarrow> DedicatedNodes \<Rightarrow> AppInput \<Rightarrow> DedicatedNodes" where
  \<comment> \<open>one turn of the loop \<open>for (const app of apps)\<close>\<close>
  "perAppStep useMinReplicas acc app =
     (let reps = (if useMinReplicas then minReplicas app else replicas app) in
      case findNodeType app of
        None \<Rightarrow>
          acc\<lparr>perApp := perApp acc @
                 [\<lparr>pa_appName = orElse (name app) ''(unnamed)'',
                   pa_nodeType = None,
                   pa_nodeTypeName = ''N/A'',
                   pa_replicas = reps,
                   pa_nodesNeeded = 0,
                   pa_perNodeCapacity = Finite 0,
                   pa_plan = ''Dedicated (N/A)'',
                   pa_minReplicas = minReplicas app\<rparr>],
              warning := Some ''No suitable node type found for one or more apps.''\<rparr>
      | Some nodeType \<Rightarrow>
          (let perNodeCapacity =
                 minCapacity (floorQuot (node_cpu nodeType) (cpu app))
                   (minCapacity (floorQuot (node_ram nodeType) (ram app))
                      (if 0 < gpu app then floorQuot (node_gpu nodeType) (gpu app) else Infinity));
               nodesNeeded = (if positive perNodeCapacity then ceilQuot reps perNodeCapacity else 0)
           in acc\<lparr>totalNodes := totalNodes acc + nodesNeeded,
                   perApp := perApp acc @
                     [\<lparr>pa_appName = orElse (name app) ''(unnamed)'',
                       pa_nodeType = Some nodeType,
                       pa_nodeTypeName = node_name nodeType,
                       pa_replicas = reps,
                       pa_nodesNeeded = nodesNeeded,
                       pa_perNodeCapacity = perNodeCapacity,
                       pa_plan = ''Dedicated ('' @ node_name nodeType @ '')'',
                       pa_minReplicas = minReplicas app\<rparr>]\<rparr>))"

definition getPerAppDedicatedNodes :: "AppInput list \<Rightarrow> bool \<Rightarrow> DedicatedNodes" where
  "getPerAppDedicatedNodes apps useMinReplicas =
     foldl (perAppStep useMinReplicas) \<lparr>perApp = [], totalNodes = 0, warning = None\<rparr> apps"

section \<open>Validation\<close>

definition validateAppInput :: "AppInput \<Rightarrow> PlanChoice \<Rightarrow> string option" where
  "validateAppInput app planChoice =
     (let isConsumption =
            (planChoice = Plan Consumption \<or> (planChoice = Mix \<and> plan app = Some Consumption))
      in if isConsumption then
           (if 4 < cpu app then Some ''CPU must not exceed 4 for Consumption plan.''
            else if 8 < ram app then Some ''RAM must not exceed 8GB for Consumption plan.''
            else if 0 < gpu app then Some ''GPU is not supported for Consumption plan.''
            else None)
         else None)"

definition appLabel :: "AppInput \<Rightarrow> nat \<Rightarrow> string" where
  \<comment> \<open>the template \<open>App ${app.name || idx + 1}: \<close>\<close>
  "appLabel app idx = ''App '' @ orElse (name app) (showNat (idx + 1)) @ '': ''"



section \<open>The planner\<close>

text \<open>
  A row of \<open>appAssignments\<close>, its fields prefixed \<open>as_\<close>. A Consumption row has
  \<open>ipUsed\<close> and the string \<open>"-"\<close> for \<open>nodes\<close>; a Dedicated row has the number of
  nodes and \<open>perNodeCapacity\<close> instead.
\<close>

record Assignment =
  as_name :: string
  as_plan :: string
  as_replicas :: int
  as_minReplicas :: int
  as_ipUsed :: "int option"
  as_nodeType :: string
  as_nodes :: "string + int"
  as_perNodeCapacity :: "capacity option"

text \<open>
  The object \<open>calculate\<close> returns, its fields prefixed \<open>res_\<close>. \<open>warning\<close> is
  \<open>None\<close> when \<open>undefined\<close>; \<open>perAppDedicated\<close> is absent under Consumption.
\<close>

record PlanResult =
  res_plan :: string
  res_ips :: int
  res_doubledIPs :: int
  res_details :: string
  res_appAssignments :: "Assignment list"
  res_warning :: "string option"
  res_perAppDedicated :: "PerAppResult list option"
  res_minReplicas :: int

definition subnetWarning :: "string \<Rightarrow> string" where
  \<comment> \<open>the first statements of \<open>calculate\<close>: \<open>bits !== null && bits > 27\<close>\<close>
  "subnetWarning subnet =
     (let bits :: jsnum option =
            (if startsWith subnet ''/'' then Some (parseInt (drop 1 subnet))
             else if allDigits subnet then Some (parseInt subnet)
             else None)
      in case bits of
           Some (Num b) \<Rightarrow> (if 27 < b then ''Minimum subnet size for integration is /27!'' else [])
         | _ \<Rightarrow> [])"

definition orOne :: "int \<Rightarrow> int" where
  \<comment> \<open>\<open>n || 1\<close>\<close>
  "orOne n = (if n = 0 then 1 else n)"

definition ipUsed :: "AppInput \<Rightarrow> int" where
  \<comment> \<open>\<open>Math.ceil(app.replicas / 10)\<close>, the IPs of an app under Consumption\<close>
  "ipUsed app = ceilQuot (replicas app) (Finite 10)"

definition consumptionRow :: "AppInput \<Rightarrow> Assignment" where
  \<comment> \<open>the row pushed for a Consumption app\<close>
  "consumptionRow app =
     (let used = ipUsed app
      in \<lparr>as_name = orElse (name app) ''(unnamed)'',
          as_plan = ''Consumption'',
          as_replicas = replicas app,
          as_minReplicas = minReplicas app,
          as_ipUsed = Some used,
          as_nodeType = ''-'',
          as_nodes = Inl ''-'',
          as_perNodeCapacity = None\<rparr>)"

definition dedicatedRow :: "PerAppResult \<Rightarrow> Assignment" where
  \<comment> \<open>the row pushed for an entry of \<open>dedResult.perApp\<close>\<close>
  "dedicatedRow appRes =
     \<lparr>as_name = pa_appName appRes,
      as_plan = pa_plan appRes,
      as_replicas = pa_replicas appRes,
      as_minReplicas = pa_minReplicas appRes,
      as_ipUsed = None,
      as_nodeType = pa_nodeTypeName appRes,
      as_nodes = Inr (pa_nodesNeeded appRes),
      as_perNodeCapacity = Some (pa_perNodeCapacity appRes)\<rparr>"

definition consumptionDetail :: "AppInput \<Rightarrow> string" where
  "consumptionDetail a =
     orElse (name a) ''(unnamed)'' @ '': '' @ showInt (ipUsed a)
       @ '' IPs (Consumption)''"

definition dedicatedDetail :: "PerAppResult \<Rightarrow> string" where
  "dedicatedDetail a =
     pa_appName a @ '': '' @ showInt (pa_nodesNeeded a) @ '' x '' @ pa_nodeTypeName a
       @ '' (up to '' @ showCapacity (pa_perNodeCapacity a) @ '' per node)''"

definition orUndefined :: "string \<Rightarrow> string option \<Rightarrow> string option" where
  \<comment> \<open>\<open>warning || dedResult.warning\<close>\<close>
  "orUndefined w d = (if w = [] then d else Some w)"

definition calculate :: "AppInput list \<Rightarrow> string \<Rightarrow> PlanChoice \<Rightarrow> PlanResult" where
  "calculate apps subnet planChoice =
     (let warn = subnetWarning subnet;
          totalMinReplicas = foldl (\<lambda>sum app. sum + orOne (minReplicas app)) 0 apps
      in
      if planChoice = Mix then
        (let consApps = filter (\<lambda>a. plan a = Some Consumption) apps;
             dedApps = filter (\<lambda>a. plan a = Some Dedicated) apps;
             consIPs = foldl (\<lambda>s app. s + ipUsed app) 0 consApps;
             dedResult = getPerAppDedicatedNodes dedApps False;
             appAssignments = map consumptionRow consApps @ map dedicatedRow (perApp dedResult);
             dedIPs = totalNodes dedResult;
             totalIPs = consIPs + dedIPs;
             details =
               join ''; ''
                 (filter (\<lambda>s. s \<noteq> [])
                    ((if consApps \<noteq> [] then [join ''; '' (map consumptionDetail consApps)] else [])
                     @ (if perApp dedResult \<noteq> []
                        then [join ''; '' (map dedicatedDetail (perApp dedResult))] else [])))
         in \<lparr>res_plan = ''Mix'',
             res_ips = totalIPs,
             res_doubledIPs =
               foldl (\<lambda>sum app. sum + ceilQuot (orOne (minReplicas app)) (Finite 10)) 0 consApps
                 + totalNodes (getPerAppDedicatedNodes dedApps True),
             res_details = details,
             res_appAssignments = appAssignments,
             res_warning = orUndefined warn (warning dedResult),
             res_perAppDedicated = Some (perApp dedResult),
             res_minReplicas = totalMinReplicas\<rparr>)
      else if planChoice = Plan Consumption then
        (let consIPs = foldl (\<lambda>s app. s + ipUsed app) 0 apps;
             appAssignments = map consumptionRow apps;
             doubledIPs =
               foldl (\<lambda>sum app. sum + ceilQuot (orOne (minReplicas app)) (Finite 10)) 0 apps
         in \<lparr>res_plan = ''Consumption'',
             res_ips = consIPs,
             res_doubledIPs = doubledIPs,
             res_details = ''Consumption apps: '' @ showNat (length apps),
             res_appAssignments = appAssignments,
             res_warning = Some warn,
             res_perAppDedicated = None,
             res_minReplicas = totalMinReplicas\<rparr>)
      else
        (let dedResult = getPerAppDedicatedNodes apps False;
             appAssignments = map dedicatedRow (perApp dedResult)
         in \<lparr>res_plan = ''Dedicated'',
             res_ips = totalNodes dedResult,
             res_doubledIPs = totalNodes (getPerAppDedicatedNodes apps True),
             res_details =
               (case warning dedResult of
                  Some w \<Rightarrow> w
                | None \<Rightarrow> join ''; '' (map dedicatedDetail (perApp dedResult))),
             res_appAssignments = appAssignments,
             res_warning = orUndefined warn (warning dedResult),
             res_perAppDedicated = Some (perApp dedResult),
             res_minReplicas = totalMinReplicas\<rparr>))"

section \<open>Submitting the form\<close>

text \<open>
  The state of the page that \<open>handleSubmit\<close> reads and writes: the form's inputs, the
  errors shown and the last computed result (\<open>None\<close> for \<open>null\<close>). The handler sets
  \<open>inputErrors\<close>, returns when there are errors, and sets \<open>result\<close> otherwise.
\<close>

record Page =
  apps :: "AppInput list"
  subnetSize :: string
  planChoice :: PlanChoice
  result :: "PlanResult option"
  inputErrors :: "string list"

definition submitErrors :: "AppInput list \<Rightarrow> PlanChoice \<Rightarrow> string list" where
  \<comment> \<open>the errors \<open>handleSubmit\<close> collects where it only calls \<open>validateAppInput\<close>:
      \<open>apps.forEach((app, idx) => { const err = ...; if (err) errors.push(...) })\<close>\<close>
  "submitErrors as pc =
     concat (map (\<lambda>ia. case ia of (idx, app) \<Rightarrow>
                    (case validateAppInput app pc of
                       None \<Rightarrow> []
                     | Some err \<Rightarrow> (if err = [] then [] else [appLabel app idx @ err])))
               (enumerate 0 as))"

definition handleSubmit :: "Page \<Rightarrow> Page" where
  \<comment> \<open>\<open>handleSubmit\<close> of the page with per-app validation only\<close>
  "handleSubmit st =
     (let errors = submitErrors (apps st) (planChoice st);
          st1 = st\<lparr>inputErrors := errors\<rparr>
      in if 0 < length errors then st1
         else st1\<lparr>result := Some (calculate (apps st) (subnetSize st) (planChoice st))\<rparr>)"


section \<open>Notions used in the statements\<close>

definition noNodeWarning :: string where
  "noNodeWarning = ''No suitable node type found for one or more apps.''"

definition appRow :: "bool \<Rightarrow> AppInput \<Rightarrow> PerAppResult" where
  \<comment> \<open>the entry of \<open>perApp\<close> that one turn of the loop pushes for \<open>app\<close>\<close>
  "appRow useMinReplicas app =
     hd (perApp (perAppStep useMinReplicas \<lparr>perApp = [], totalNodes = 0, warning = None\<rparr> app))"

definition smallerCapacity :: "NodeType \<Rightarrow> NodeType \<Rightarrow> bool" where
  \<comment> \<open>\<open>n\<close> has strictly smaller capacity than \<open>m\<close>: no more of any resource, and less of one\<close>
  "smallerCapacity n m =
     (node_cpu n \<le> node_cpu m \<and> node_ram n \<le> node_ram m \<and> node_gpu n \<le> node_gpu m
      \<and> (node_cpu n < node_cpu m \<or> node_ram n < node_ram m \<or> node_gpu n < node_gpu m))"




definition exampleApp :: AppInput where
  "exampleApp =
     \<lparr>name = ''api'', cpu = 1, gpu = 0, ram = 2, minReplicas = 6, baselineReplicas = 6,
      replicas = 25, plan = None, baselineTouched = None\<rparr>"


section \<open>Evaluation\<close>

lemma digitChar_eval:
  "digitChar 0 = CHR ''0''" "digitChar 1 = CHR ''1''" "digitChar (Suc 0) = CHR ''1''"
  "digitChar 2 = CHR ''2''" "digitChar 3 = CHR ''3''" "digitChar 4 = CHR ''4''"
  "digitChar 5 = CHR ''5''" "digitChar 6 = CHR ''6''" "digitChar 7 = CHR ''7''"
  "digitChar 8 = CHR ''8''" "digitChar 9 = CHR ''9''"
  by (code_simp+)

lemma padStart_eval: "padStart n c s = (if n \<le> length s then s else padStart n c (c # s))"
proof (cases "n \<le> length s")
  case True
  then show ?thesis by (simp add: padStart_def)
next
  case False
  then have "n - length s = Suc (n - length (c # s))" by simp
  then show ?thesis using False by (simp add: padStart_def replicate_app_Cons_same)
qed

lemmas subnet_eval =
  getAvailableIPs_def subnetBits_def startsWith_def allDigits_def dottedQuad_def
  parseInt_def isDigit_def digitValue_def digitChar_eval decimalValue_def isWhiteSpace_def
  Number_def roundDouble_def toString2_def padStart_eval slashForm_def bareForm_def maskForm_def
  maskOctet_def showNat.simps toBinary.simps bitLength.simps Let_def

lemma floorQuot_div: "floorQuot a b = (if b = 0 then Infinity else Finite (a div b))"
  by (simp add: floorQuot_def floor_divide_of_int_eq)

lemma ceilQuot_div: "ceilQuot r (Finite p) = - ((- r) div p)"
  by (simp add: ceiling_divide_eq_div)

lemma ceilQuot_real: "ceilQuot r (Finite p) = \<lceil>real_of_int r / real_of_int p\<rceil>"
  by (simp add: ceiling_divide_eq_div)

lemma foldl_plus_sum: "foldl (\<lambda>s x. s + f x) z xs = z + sum_list (map f xs)"
  for z :: int
  by (induction xs arbitrary: z) simp_all

section \<open>Available IPs\<close>

text \<open>
  From \<open>/1\<close> to \<open>/32\<close> the three forms of a prefix length give the same figure,
  \<open>2^(32-N) - 14\<close>.
\<close>

lemma getAvailableIPs_forms:
  assumes "1 \<le> N" and "N \<le> 32"
  shows "getAvailableIPs (slashForm N) = Some (2 ^ (32 - N) - 14)
       \<and> getAvailableIPs (bareForm N) = Some (2 ^ (32 - N) - 14)
       \<and> getAvailableIPs (maskForm N) = Some (2 ^ (32 - N) - 14)"
proof -
  have "N = 1 \<or> N = 2 \<or> N = 3 \<or> N = 4 \<or> N = 5 \<or> N = 6 \<or> N = 7 \<or> N = 8
      \<or> N = 9 \<or> N = 10 \<or> N = 11 \<or> N = 12 \<or> N = 13 \<or> N = 14 \<or> N = 15 \<or> N = 16
      \<or> N = 17 \<or> N = 18 \<or> N = 19 \<or> N = 20 \<or> N = 21 \<or> N = 22 \<or> N = 23 \<or> N = 24
      \<or> N = 25 \<or> N = 26 \<or> N = 27 \<or> N = 28 \<or> N = 29 \<or> N = 30 \<or> N = 31 \<or> N = 32"
    using assms by arith
  then show ?thesis
    by (elim disjE; hypsubst; simp add: subnet_eval)
qed

text \<open>
  C1. At the prefix length 0 the truthiness test \<open>bits && ...\<close> rejects the parsed
  \<open>0\<close>: in each of the three forms \<open>getAvailableIPs\<close> returns \<open>null\<close>, not
  \<open>2^32 - 14\<close>.
\<close>

theorem getAvailableIPs_prefix_zero:
  "slashForm 0 = ''/0'' \<and> bareForm 0 = ''0'' \<and> maskForm 0 = ''0.0.0.0''
   \<and> getAvailableIPs ''/0'' = None
   \<and> getAvailableIPs ''0'' = None
   \<and> getAvailableIPs ''0.0.0.0'' = None"
  by (simp add: subnet_eval)

text \<open>
  C9. For a prefix length from 29 to 32 the figure is the negative integer
  \<open>2^(32-N) - 14\<close>: in the forms \<open>/N\<close>, \<open>N\<close> and netmask, and for every other
  string whose parsed \<open>bits\<close> is \<open>N\<close>. It is neither \<open>null\<close> nor clamped to zero.
\<close>

theorem getAvailableIPs_negative:
  assumes "29 \<le> N" and "N \<le> 32"
  shows "getAvailableIPs (slashForm N) = Some (2 ^ (32 - N) - 14)
       \<and> getAvailableIPs (bareForm N) = Some (2 ^ (32 - N) - 14)
       \<and> getAvailableIPs (maskForm N) = Some (2 ^ (32 - N) - 14)
       \<and> (2 :: int) ^ (32 - N) - 14 < 0
       \<and> (\<forall>s. subnetBits s = Some (Num (int N))
              \<longrightarrow> getAvailableIPs s = Some (2 ^ (32 - N) - 14))"
proof -
  have forms: "getAvailableIPs (slashForm N) = Some (2 ^ (32 - N) - 14)
       \<and> getAvailableIPs (bareForm N) = Some (2 ^ (32 - N) - 14)
       \<and> getAvailableIPs (maskForm N) = Some (2 ^ (32 - N) - 14)"
    using assms getAvailableIPs_forms [of N] by simp
  have "32 - N \<le> 3" using assms by simp
  then have "(2 :: int) ^ (32 - N) \<le> 2 ^ 3"
    by (intro power_increasing) simp_all
  then have neg: "(2 :: int) ^ (32 - N) - 14 < 0" by simp
  have "nat (32 - int N) = 32 - N" using assms by simp
  then have any: "\<forall>s. subnetBits s = Some (Num (int N))
      \<longrightarrow> getAvailableIPs s = Some (2 ^ (32 - N) - 14)"
    using assms by (simp add: getAvailableIPs_def)
  from forms neg any show ?thesis by blast
qed

theorem getAvailableIPs_negative_witness:
  "getAvailableIPs ''/29'' = Some (- 6)
   \<and> getAvailableIPs ''32'' = Some (- 13)
   \<and> getAvailableIPs ''255.255.255.252'' = Some (- 10)
   \<and> subnetBits ''/ +31 hosts'' = Some (Num 31) \<and> getAvailableIPs ''/ +31 hosts'' = Some (- 12)"
proof -
  have a: "slashForm 29 = ''/29''" and b: "bareForm 32 = ''32''"
    and c: "maskForm 30 = ''255.255.255.252''"
    and d: "subnetBits ''/ +31 hosts'' = Some (Num (int 31))"
    by (simp_all add: subnet_eval)
  show ?thesis
    using getAvailableIPs_negative [of 29] getAvailableIPs_negative [of 32]
      getAvailableIPs_negative [of 30] getAvailableIPs_negative [of 31] a b c d
    by simp
qed

section \<open>The loop of getPerAppDedicatedNodes\<close>

lemma appRow_None:
  "findNodeType app = None \<Longrightarrow>
   appRow u app =
     \<lparr>pa_appName = orElse (name app) ''(unnamed)'', pa_nodeType = None, pa_nodeTypeName = ''N/A'',
      pa_replicas = (if u then minReplicas app else replicas app), pa_nodesNeeded = 0,
      pa_perNodeCapacity = Finite 0, pa_plan = ''Dedicated (N/A)'',
      pa_minReplicas = minReplicas app\<rparr>"
  by (simp add: appRow_def perAppStep_def)


lemma appRow_None_nodes: "findNodeType app = None \<Longrightarrow> pa_nodesNeeded (appRow u app) = 0"
  by (simp add: appRow_None)

lemma perAppStep_perApp: "perApp (perAppStep u acc app) = perApp acc @ [appRow u app]"
  by (simp add: perAppStep_def appRow_def Let_def split: option.split)

lemma perAppStep_totalNodes:
  "totalNodes (perAppStep u acc app) = totalNodes acc + pa_nodesNeeded (appRow u app)"
  by (simp add: perAppStep_def appRow_def Let_def split: option.split)

lemma perAppStep_warning:
  "warning (perAppStep u acc app) =
     (if findNodeType app = None then Some noNodeWarning else warning acc)"
  by (simp add: perAppStep_def noNodeWarning_def Let_def split: option.split)

lemma foldl_perApp:
  "perApp (foldl (perAppStep u) acc as) = perApp acc @ map (appRow u) as"
  by (induction as arbitrary: acc) (simp_all add: perAppStep_perApp)

lemma foldl_totalNodes:
  "totalNodes (foldl (perAppStep u) acc as) =
     totalNodes acc + sum_list (map (\<lambda>a. pa_nodesNeeded (appRow u a)) as)"
  by (induction as arbitrary: acc) (simp_all add: perAppStep_totalNodes)

lemma foldl_warning:
  "warning (foldl (perAppStep u) acc as) =
     (if list_ex (\<lambda>a. findNodeType a = None) as then Some noNodeWarning else warning acc)"
  by (induction as arbitrary: acc) (simp_all add: perAppStep_warning)

lemma perApp_rows: "perApp (getPerAppDedicatedNodes as u) = map (appRow u) as"
  by (simp add: getPerAppDedicatedNodes_def foldl_perApp)

lemma totalNodes_sum:
  "totalNodes (getPerAppDedicatedNodes as u) = sum_list (map (\<lambda>a. pa_nodesNeeded (appRow u a)) as)"
  by (simp add: getPerAppDedicatedNodes_def foldl_totalNodes)

lemma warning_iff:
  "warning (getPerAppDedicatedNodes as u) =
     (if list_ex (\<lambda>a. findNodeType a = None) as then Some noNodeWarning else None)"
  by (simp add: getPerAppDedicatedNodes_def foldl_warning)


section \<open>Consumption accounting\<close>

lemma calculate_consumption_ips:
  "res_ips (calculate as s (Plan Consumption)) = sum_list (map ipUsed as)"
  by (simp add: calculate_def Let_def foldl_plus_sum)

text \<open>
  C7. Under Consumption accounting the IP cost of an app is \<open>ceil(replicas / 10)\<close>, and
  the plan's total is the sum of the costs. The cost does not decrease when the replica
  count grows, it rises by exactly one from \<open>10k\<close> to \<open>10k + 1\<close>, and it is \<open>k + 1\<close>
  all the way from \<open>10k + 1\<close> to \<open>10k + 10\<close>.
\<close>

theorem consumption_ip_cost:
  "ipUsed app = \<lceil>real_of_int (replicas app) / 10\<rceil>
   \<and> as_ipUsed (consumptionRow app) = Some (ipUsed app)
   \<and> res_ips (calculate as subnet (Plan Consumption)) = sum_list (map ipUsed as)
   \<and> (replicas a \<le> replicas b \<longrightarrow> ipUsed a \<le> ipUsed b)
   \<and> (replicas a = 10 * k \<and> replicas b = 10 * k + 1 \<longrightarrow> ipUsed b = ipUsed a + 1)
   \<and> (10 * k + 1 \<le> replicas a \<and> replicas a \<le> 10 * k + 10 \<longrightarrow> ipUsed a = k + 1)"
proof -
  have c: "ipUsed x = - ((- replicas x) div 10)" for x
    using ceilQuot_div [of "replicas x" 10] by (simp add: ipUsed_def)
  have 1: "ipUsed app = \<lceil>real_of_int (replicas app) / 10\<rceil>"
    using ceilQuot_real [of "replicas app" 10] by (simp add: ipUsed_def)
  have 2: "as_ipUsed (consumptionRow app) = Some (ipUsed app)"
    by (simp add: consumptionRow_def)
  have 4: "replicas a \<le> replicas b \<longrightarrow> ipUsed a \<le> ipUsed b"
    unfolding c by (simp add: zdiv_mono1)
  have 5: "replicas a = 10 * k \<and> replicas b = 10 * k + 1 \<longrightarrow> ipUsed b = ipUsed a + 1"
    unfolding c by presburger
  have 6: "10 * k + 1 \<le> replicas a \<and> replicas a \<le> 10 * k + 10 \<longrightarrow> ipUsed a = k + 1"
    unfolding c by presburger
  from 1 2 4 5 6 calculate_consumption_ips show ?thesis by blast
qed

theorem consumption_ip_cost_witness:
  "ipUsed exampleApp = 3
   \<and> ipUsed (exampleApp\<lparr>replicas := 20\<rparr>) = 2 \<and> ipUsed (exampleApp\<lparr>replicas := 21\<rparr>) = 3
   \<and> ipUsed (exampleApp\<lparr>replicas := 30\<rparr>) = 3
   \<and> res_ips (calculate [exampleApp, exampleApp\<lparr>replicas := 20\<rparr>] ''/27'' (Plan Consumption)) = 5"
  using consumption_ip_cost [of exampleApp "[exampleApp, exampleApp\<lparr>replicas := 20\<rparr>]" "''/27''"
      "exampleApp\<lparr>replicas := 20\<rparr>" "exampleApp\<lparr>replicas := 21\<rparr>" 2]
    consumption_ip_cost [of exampleApp "[]" "''/27''"
      "exampleApp\<lparr>replicas := 30\<rparr>" "exampleApp\<lparr>replicas := 30\<rparr>" 2]
    consumption_ip_cost [of exampleApp "[]" "''/27''"
      "exampleApp" "exampleApp" 2]
  by (simp add: exampleApp_def ipUsed_def)


section \<open>Peak and upgrade totals\<close>

lemmas planner_eval =
  calculate_def getPerAppDedicatedNodes_def perAppStep_def findNodeType_def fits_def
  DEDICATED_NODE_TYPES_def floorQuot_div ceilQuot_div ipUsed_def orOne_def orElse_def
  subnetWarning_def orUndefined_def consumptionRow_def dedicatedRow_def
  startsWith_def allDigits_def parseInt_def isDigit_def isWhiteSpace_def digitValue_def
  decimalValue_def exampleApp_def Let_def

text \<open>
  C2. The upgrade-phase total \<open>doubledIPs\<close> is computed from \<open>minReplicas\<close> itself, not
  from twice \<open>minReplicas\<close>. With \<open>minReplicas = 6\<close> the Consumption figure is
  \<open>ceil(6 / 10) = 1\<close>, where the accounting on 12 replicas gives 2; on D4 nodes holding
  one replica each the Dedicated figure is 6, where 12 replicas need 12 nodes. The peak
  total uses \<open>replicas\<close>, the maximum: 3 for 25 replicas.
\<close>

theorem doubledIPs_not_doubled:
  "res_doubledIPs (calculate [exampleApp] ''/27'' (Plan Consumption)) = 1
   \<and> res_ips (calculate [exampleApp\<lparr>replicas := 2 * minReplicas exampleApp\<rparr>] ''/27''
        (Plan Consumption)) = 2
   \<and> res_doubledIPs (calculate [exampleApp\<lparr>cpu := 4, ram := 16\<rparr>] ''/27'' (Plan Dedicated)) = 6
   \<and> res_ips (calculate [exampleApp\<lparr>cpu := 4, ram := 16, replicas := 2 * minReplicas exampleApp\<rparr>]
        ''/27'' (Plan Dedicated)) = 12
   \<and> res_ips (calculate [exampleApp] ''/27'' (Plan Consumption)) = 3"
  by (simp add: planner_eval del: ceilQuot.simps(2))

section \<open>The fit resolver\<close>

text \<open>
  C3. For a replica of 4 cpu and 20 GB the resolver returns D8 (8 cpu, 32 GB), the first
  entry that fits. E4 (4 cpu, 32 GB) is in the catalog, fits as well, and has strictly
  smaller capacity: the D family is listed before the E family, so the first fit is not
  the smallest one.
\<close>

theorem first_fit_not_smallest:
  "findNodeType (exampleApp\<lparr>cpu := 4, ram := 20\<rparr>)
     = Some \<lparr>node_name = ''D8'', node_cpu = 8, node_ram = 32, node_gpu = 0\<rparr>
   \<and> \<lparr>node_name = ''E4'', node_cpu = 4, node_ram = 32, node_gpu = 0\<rparr> \<in> set DEDICATED_NODE_TYPES
   \<and> fits (exampleApp\<lparr>cpu := 4, ram := 20\<rparr>)
        \<lparr>node_name = ''E4'', node_cpu = 4, node_ram = 32, node_gpu = 0\<rparr>
   \<and> smallerCapacity \<lparr>node_name = ''E4'', node_cpu = 4, node_ram = 32, node_gpu = 0\<rparr>
        \<lparr>node_name = ''D8'', node_cpu = 8, node_ram = 32, node_gpu = 0\<rparr>"
  by (simp add: findNodeType_def fits_def DEDICATED_NODE_TYPES_def smallerCapacity_def
      exampleApp_def)

text \<open>What the resolver does return: the first entry of the catalog that fits.\<close>

lemma findNodeType_first:
  assumes "findNodeType app = Some n"
  shows "\<exists>i < length DEDICATED_NODE_TYPES. DEDICATED_NODE_TYPES ! i = n \<and> fits app n
           \<and> (\<forall>j < i. \<not> fits app (DEDICATED_NODE_TYPES ! j))"
  using assms unfolding findNodeType_def find_Some_iff by blast

lemma findNodeType_None: "findNodeType app = None \<longleftrightarrow> \<not> list_ex (fits app) DEDICATED_NODE_TYPES"
  by (auto simp add: findNodeType_def find_None_iff list_ex_iff)

section \<open>Per-node capacity and nodes needed\<close>









text \<open>
  A negative requirement is outside these inputs. There the resolved capacity is not
  positive and the loop sets no warning: for \<open>-1\<close> cpu the node type is D4, the capacity
  \<open>floor(4 / -1) = -4\<close> and the node count 0.
\<close>

lemma negative_requirement_no_warning:
  "findNodeType (exampleApp\<lparr>cpu := - 1\<rparr>)
     = Some \<lparr>node_name = ''D4'', node_cpu = 4, node_ram = 16, node_gpu = 0\<rparr>
   \<and> map pa_perNodeCapacity (perApp (getPerAppDedicatedNodes [exampleApp\<lparr>cpu := - 1\<rparr>] False))
       = [Finite (- 4)]
   \<and> map pa_nodesNeeded (perApp (getPerAppDedicatedNodes [exampleApp\<lparr>cpu := - 1\<rparr>] False)) = [0]
   \<and> warning (getPerAppDedicatedNodes [exampleApp\<lparr>cpu := - 1\<rparr>] False) = None"
  by (simp add: planner_eval del: ceilQuot.simps(2))

section \<open>Apps that no node type fits\<close>

lemmas details_eval =
  dedicatedDetail_def consumptionDetail_def showInt_def showNat.simps digitChar_eval

text \<open>
  C5, as stated, fails where the subnet is smaller than /27: \<open>warning || dedResult.warning\<close>
  keeps the subnet warning, so for a Dedicated-tagged app of 8 gpu under Mix and the
  subnet \<open>/28\<close> the result carries no "no suitable node type" warning, neither in
  \<open>warning\<close> nor in \<open>details\<close>.
\<close>

theorem no_node_warning_masked:
  "findNodeType (exampleApp\<lparr>gpu := 8, plan := Some Dedicated\<rparr>) = None
   \<and> res_warning (calculate [exampleApp\<lparr>gpu := 8, plan := Some Dedicated\<rparr>] ''/28'' Mix)
       = Some ''Minimum subnet size for integration is /27!''
   \<and> res_details (calculate [exampleApp\<lparr>gpu := 8, plan := Some Dedicated\<rparr>] ''/28'' Mix)
       = ''api: 0 x N/A (up to 0 per node)''"
  by (simp add: planner_eval details_eval del: ceilQuot.simps(2))

text \<open>The fields of the result, app by app.\<close>

lemma calculate_dedicated_fields:
  "res_ips (calculate as s (Plan Dedicated)) = sum_list (map (\<lambda>a. pa_nodesNeeded (appRow False a)) as)"
  "res_doubledIPs (calculate as s (Plan Dedicated))
     = sum_list (map (\<lambda>a. pa_nodesNeeded (appRow True a)) as)"
  "res_appAssignments (calculate as s (Plan Dedicated)) = map (\<lambda>a. dedicatedRow (appRow False a)) as"
  "res_warning (calculate as s (Plan Dedicated))
     = orUndefined (subnetWarning s)
         (if list_ex (\<lambda>a. findNodeType a = None) as then Some noNodeWarning else None)"
  by (simp_all add: calculate_def Let_def totalNodes_sum perApp_rows warning_iff comp_def)

lemma calculate_mix_fields:
  "res_ips (calculate as s Mix)
     = sum_list (map ipUsed (filter (\<lambda>a. plan a = Some Consumption) as))
       + sum_list (map (\<lambda>a. pa_nodesNeeded (appRow False a)) (filter (\<lambda>a. plan a = Some Dedicated) as))"
  "res_doubledIPs (calculate as s Mix)
     = sum_list (map (\<lambda>a. ceilQuot (orOne (minReplicas a)) (Finite 10))
                  (filter (\<lambda>a. plan a = Some Consumption) as))
       + sum_list (map (\<lambda>a. pa_nodesNeeded (appRow True a)) (filter (\<lambda>a. plan a = Some Dedicated) as))"
  "res_appAssignments (calculate as s Mix)
     = map consumptionRow (filter (\<lambda>a. plan a = Some Consumption) as)
       @ map (\<lambda>a. dedicatedRow (appRow False a)) (filter (\<lambda>a. plan a = Some Dedicated) as)"
  "res_warning (calculate as s Mix)
     = orUndefined (subnetWarning s)
         (if list_ex (\<lambda>a. findNodeType a = None) (filter (\<lambda>a. plan a = Some Dedicated) as)
          then Some noNodeWarning else None)"
  by (simp_all add: calculate_def Let_def totalNodes_sum perApp_rows warning_iff comp_def
      foldl_plus_sum del: ceilQuot.simps(2))

lemma dedicatedRow_None:
  "findNodeType a = None \<Longrightarrow>
     as_name (dedicatedRow (appRow u a)) = orElse (name a) ''(unnamed)''
     \<and> as_nodeType (dedicatedRow (appRow u a)) = ''N/A''
     \<and> as_nodes (dedicatedRow (appRow u a)) = Inr 0"
  by (simp add: dedicatedRow_def appRow_None)

text \<open>
  C5, amended. Under Dedicated accounting (the Dedicated plan, or a Dedicated-tagged app
  under Mix) an app that no catalog entry fits does not stop the planner. Its row reports
  the node type \<open>N/A\<close> and 0 nodes; the peak and upgrade totals and the rows of all other
  apps are those of the list without it. The result's warning is the "no suitable node
  type" message unless the subnet warning (prefix longer than /27) is raised, which then
  takes its place.
\<close>

theorem unsatisfiable_app_warning:
  assumes "pc = Plan Dedicated \<or> (pc = Mix \<and> plan a = Some Dedicated)"
    and "findNodeType a = None"
  shows "(let res = calculate (xs @ a # ys) s pc; res' = calculate (xs @ ys) s pc
          in res_warning res
               = Some (if subnetWarning s = [] then noNodeWarning else subnetWarning s)
           \<and> res_ips res = res_ips res'
           \<and> res_doubledIPs res = res_doubledIPs res'
           \<and> (\<exists>A1 r A2. res_appAssignments res = A1 @ r # A2
                  \<and> res_appAssignments res' = A1 @ A2
                  \<and> as_name r = orElse (name a) ''(unnamed)''
                  \<and> as_nodeType r = ''N/A'' \<and> as_nodes r = Inr 0))"
proof -
  note row = dedicatedRow_None [OF assms(2), of False]
  from assms(1) show ?thesis
  proof
    assume pc: "pc = Plan Dedicated"
    have rows: "res_appAssignments (calculate (xs @ a # ys) s pc)
        = map (\<lambda>a. dedicatedRow (appRow False a)) xs @ dedicatedRow (appRow False a)
            # map (\<lambda>a. dedicatedRow (appRow False a)) ys"
      and rows': "res_appAssignments (calculate (xs @ ys) s pc)
        = map (\<lambda>a. dedicatedRow (appRow False a)) xs @ map (\<lambda>a. dedicatedRow (appRow False a)) ys"
      by (simp_all add: pc calculate_dedicated_fields)
    have ex: "\<exists>A1 r A2. res_appAssignments (calculate (xs @ a # ys) s pc) = A1 @ r # A2
                  \<and> res_appAssignments (calculate (xs @ ys) s pc) = A1 @ A2
                  \<and> as_name r = orElse (name a) ''(unnamed)''
                  \<and> as_nodeType r = ''N/A'' \<and> as_nodes r = Inr 0"
      using rows rows' row by blast
    show ?thesis
      unfolding Let_def using ex assms(2)
      by (simp add: pc calculate_dedicated_fields appRow_None_nodes orUndefined_def)
  next
    assume "pc = Mix \<and> plan a = Some Dedicated"
    then have pc: "pc = Mix" and tag: "plan a = Some Dedicated" by simp_all
    let ?C = "map consumptionRow (filter (\<lambda>a. plan a = Some Consumption) (xs @ ys))"
    let ?D = "\<lambda>zs. map (\<lambda>a. dedicatedRow (appRow False a)) (filter (\<lambda>a. plan a = Some Dedicated) zs)"
    have rows: "res_appAssignments (calculate (xs @ a # ys) s pc)
        = (?C @ ?D xs) @ dedicatedRow (appRow False a) # ?D ys"
      and rows': "res_appAssignments (calculate (xs @ ys) s pc) = (?C @ ?D xs) @ ?D ys"
      by (simp_all add: pc tag calculate_mix_fields)
    have ex: "\<exists>A1 r A2. res_appAssignments (calculate (xs @ a # ys) s pc) = A1 @ r # A2
                  \<and> res_appAssignments (calculate (xs @ ys) s pc) = A1 @ A2
                  \<and> as_name r = orElse (name a) ''(unnamed)''
                  \<and> as_nodeType r = ''N/A'' \<and> as_nodes r = Inr 0"
      using rows rows' row by blast
    show ?thesis
      unfolding Let_def using ex assms(2)
      by (simp add: pc tag calculate_mix_fields appRow_None_nodes orUndefined_def
          del: ceilQuot.simps(2))
  qed
qed

theorem unsatisfiable_app_warning_witness:
  "findNodeType (exampleApp\<lparr>gpu := 8\<rparr>) = None
   \<and> res_warning (calculate [exampleApp\<lparr>cpu := 20, ram := 200\<rparr>, exampleApp\<lparr>gpu := 8\<rparr>]
        ''/24'' (Plan Dedicated)) = Some ''No suitable node type found for one or more apps.''
   \<and> res_ips (calculate [exampleApp\<lparr>cpu := 20, ram := 200\<rparr>, exampleApp\<lparr>gpu := 8\<rparr>]
        ''/24'' (Plan Dedicated)) = 25
   \<and> res_ips (calculate [exampleApp\<lparr>cpu := 20, ram := 200\<rparr>] ''/24'' (Plan Dedicated)) = 25"
proof -
  have n: "findNodeType (exampleApp\<lparr>gpu := 8\<rparr>) = None"
    by (simp add: planner_eval)
  have w: "subnetWarning ''/24'' = []"
    by (simp add: planner_eval)
  have i: "res_ips (calculate [exampleApp\<lparr>cpu := 20, ram := 200\<rparr>] ''/24'' (Plan Dedicated)) = 25"
    by (simp add: planner_eval del: ceilQuot.simps(2))
  show ?thesis
    using unsatisfiable_app_warning [of "Plan Dedicated" "exampleApp\<lparr>gpu := 8\<rparr>"
        "[exampleApp\<lparr>cpu := 20, ram := 200\<rparr>]" "[]" "''/24''"] n w i
    by (simp add: Let_def noNodeWarning_def)
qed


section \<open>Untagged apps under Mix\<close>

lemma length_tagged:
  "length (filter (\<lambda>a. plan a \<noteq> None) as)
     = length (filter (\<lambda>a. plan a = Some Consumption) as)
       + length (filter (\<lambda>a. plan a = Some Dedicated) as)"
proof (induction as)
  case Nil
  then show ?case by simp
next
  case (Cons a as)
  then show ?case
  proof (cases "plan a")
    case None
    with Cons show ?thesis by simp
  next
    case (Some t)
    with Cons show ?thesis by (cases t) simp_all
  qed
qed

lemma filter_tagged:
  "filter (\<lambda>a. plan a = Some t) (filter (\<lambda>a. plan a \<noteq> None) as) = filter (\<lambda>a. plan a = Some t) as"
  by (induction as) auto

text \<open>
  C10. Under Mix an app whose plan tag is left undefined is in neither partition: the
  peak total, the upgrade total and the assignment rows are those computed from the
  tagged apps alone, there is one row per tagged app, and removing an untagged app from
  the list changes none of the three.
\<close>

theorem mix_untagged_excluded:
  "(let res = calculate as s Mix;
        res' = calculate (filter (\<lambda>a. plan a \<noteq> None) as) s Mix
    in res_ips res = res_ips res'
     \<and> res_doubledIPs res = res_doubledIPs res'
     \<and> res_appAssignments res = res_appAssignments res'
     \<and> length (res_appAssignments res) = length (filter (\<lambda>a. plan a \<noteq> None) as))
   \<and> (plan a = None \<longrightarrow>
        res_ips (calculate (xs @ a # ys) s Mix) = res_ips (calculate (xs @ ys) s Mix)
      \<and> res_doubledIPs (calculate (xs @ a # ys) s Mix) = res_doubledIPs (calculate (xs @ ys) s Mix)
      \<and> res_appAssignments (calculate (xs @ a # ys) s Mix)
          = res_appAssignments (calculate (xs @ ys) s Mix))"
proof -
  have 1: "res_ips (calculate as s Mix)
      = res_ips (calculate (filter (\<lambda>a. plan a \<noteq> None) as) s Mix)"
    by (simp only: calculate_mix_fields filter_tagged)
  have 2: "res_doubledIPs (calculate as s Mix)
      = res_doubledIPs (calculate (filter (\<lambda>a. plan a \<noteq> None) as) s Mix)"
    by (simp only: calculate_mix_fields filter_tagged)
  have 3: "res_appAssignments (calculate as s Mix)
      = res_appAssignments (calculate (filter (\<lambda>a. plan a \<noteq> None) as) s Mix)"
    by (simp only: calculate_mix_fields filter_tagged)
  have 4: "length (res_appAssignments (calculate as s Mix))
      = length (filter (\<lambda>a. plan a \<noteq> None) as)"
    by (simp only: calculate_mix_fields length_append length_map length_tagged)
  have 5: "plan a = None \<longrightarrow>
        res_ips (calculate (xs @ a # ys) s Mix) = res_ips (calculate (xs @ ys) s Mix)
      \<and> res_doubledIPs (calculate (xs @ a # ys) s Mix) = res_doubledIPs (calculate (xs @ ys) s Mix)
      \<and> res_appAssignments (calculate (xs @ a # ys) s Mix)
          = res_appAssignments (calculate (xs @ ys) s Mix)"
    by (simp add: calculate_mix_fields del: ceilQuot.simps(2))
  from 1 2 3 4 5 show ?thesis unfolding Let_def by blast
qed

theorem mix_untagged_excluded_witness:
  "res_ips (calculate [exampleApp\<lparr>plan := Some Consumption\<rparr>, exampleApp,
        exampleApp\<lparr>cpu := 4, ram := 16, plan := Some Dedicated\<rparr>] ''/24'' Mix) = 28
   \<and> res_ips (calculate [exampleApp\<lparr>plan := Some Consumption\<rparr>,
        exampleApp\<lparr>cpu := 4, ram := 16, plan := Some Dedicated\<rparr>] ''/24'' Mix) = 28
   \<and> length (res_appAssignments (calculate [exampleApp\<lparr>plan := Some Consumption\<rparr>, exampleApp,
        exampleApp\<lparr>cpu := 4, ram := 16, plan := Some Dedicated\<rparr>] ''/24'' Mix)) = 2"
  using mix_untagged_excluded [of "[exampleApp\<lparr>plan := Some Consumption\<rparr>, exampleApp,
        exampleApp\<lparr>cpu := 4, ram := 16, plan := Some Dedicated\<rparr>]" "''/24''" exampleApp
        "[exampleApp\<lparr>plan := Some Consumption\<rparr>]"
        "[exampleApp\<lparr>cpu := 4, ram := 16, plan := Some Dedicated\<rparr>]"]
  by (simp add: planner_eval del: ceilQuot.simps(2))


section \<open>Validation blocks the calculation\<close>










section \<open>Submitting again\<close>

text \<open>
  What a submit stores is computed from the form's inputs alone: the result of a valid
  submit does not depend on the result or the errors stored before, and submitting twice
  leaves the page as submitting once does.
\<close>

lemma handleSubmit_fresh:
  assumes "apps st = apps st'" and "subnetSize st = subnetSize st'"
    and "planChoice st = planChoice st'"
    and "submitErrors (apps st) (planChoice st) = []"
  shows "result (handleSubmit st) = Some (calculate (apps st) (subnetSize st) (planChoice st))"
    and "result (handleSubmit st') = result (handleSubmit st)"
  using assms by (auto simp add: handleSubmit_def Let_def)

lemma handleSubmit_idempotent: "handleSubmit (handleSubmit st) = handleSubmit st"
  by (auto simp add: handleSubmit_def Let_def)

end
